theory Spec2Isabelle
  imports Main "HOL-Library.Sublist"
begin

section \<open>Data model\<close>

text \<open>
  The program is \<^verbatim>\<open>tsp_astar_solution.py\<close>: the class \<^verbatim>\<open>TSPProblem\<close>, a travelling
  salesman state space handed to an A* search. A city is a name, a state is the tuple of
  the cities visited so far, and the distance matrix is a dict of dicts,
  \<^verbatim>\<open>distances[a][b]\<close> being the cost of going from \<^verbatim>\<open>a\<close> to \<^verbatim>\<open>b\<close>. Costs are Python
  integers, which are unbounded.
\<close>

type_synonym city = string
type_synonym state = "city list"
type_synonym matrix = "city \<rightharpoonup> (city \<rightharpoonup> int)"

text \<open>
  The exceptions the methods can raise: subscripting an empty tuple, a missing dict key
  (Python reports the key), and \<^verbatim>\<open>min\<close> of an empty iterable.
\<close>

datatype error = IndexError | KeyError city | ValueError

record TSPProblem =
  cities :: "city list"
  distances :: matrix
  initial_state :: state

subsection \<open>Subscripting\<close>

text \<open>\<^verbatim>\<open>state[-1]\<close> and \<^verbatim>\<open>state[0]\<close>: both raise IndexError on the empty tuple.\<close>

definition tuple_last :: "state \<Rightarrow> error + city" where
  "tuple_last s = (if s = [] then Inl IndexError else Inr (last s))"

definition tuple_first :: "state \<Rightarrow> error + city" where
  "tuple_first s = (case s of [] \<Rightarrow> Inl IndexError | c # _ \<Rightarrow> Inr c)"

text \<open>
  \<^verbatim>\<open>distances[a][b]\<close>: the row of \<^verbatim>\<open>a\<close> is looked up first, then \<^verbatim>\<open>b\<close> in that row;
  each step raises KeyError with the key it misses.
\<close>

definition dist_lookup :: "matrix \<Rightarrow> city \<Rightarrow> city \<Rightarrow> error + int" where
  "dist_lookup d a b =
     (case d a of
        None \<Rightarrow> Inl (KeyError a)
      | Some row \<Rightarrow> (case row b of None \<Rightarrow> Inl (KeyError b) | Some v \<Rightarrow> Inr v))"

text \<open>
  The matrix read as a partial map on (origin, destination) pairs: the pair is present
  when the origin has a row and the row has the destination.
\<close>

definition matrix_entry :: "matrix \<Rightarrow> city \<Rightarrow> city \<Rightarrow> int option" where
  "matrix_entry d a b = (case d a of None \<Rightarrow> None | Some row \<Rightarrow> row b)"

section \<open>The problem model\<close>

text \<open>
  \<^verbatim>\<open>__init__\<close> stores the two arguments and then builds the initial state from
  \<^verbatim>\<open>cities[0]\<close>, which raises IndexError on an empty list; no object is returned then.
\<close>

definition TSPProblem_init :: "city list \<Rightarrow> matrix \<Rightarrow> error + TSPProblem" where
  "TSPProblem_init cs d =
     (case cs of
        [] \<Rightarrow> Inl IndexError
      | c # _ \<Rightarrow> Inr \<lparr>cities = cs, distances = d, initial_state = [c]\<rparr>)"

text \<open>\<^verbatim>\<open>return len(state) == len(self.cities)\<close>\<close>

definition is_goal :: "TSPProblem \<Rightarrow> state \<Rightarrow> bool" where
  "is_goal p s = (length s = length (cities p))"

text \<open>\<^verbatim>\<open>return [city for city in self.cities if city not in state]\<close>\<close>

definition actions :: "TSPProblem \<Rightarrow> state \<Rightarrow> city list" where
  "actions p s = [c \<leftarrow> cities p. c \<notin> set s]"

text \<open>
  \<^verbatim>\<open>return state + (action,)\<close>: tuple concatenation. The method has no check and no
  raise, so its model is a total function.
\<close>

definition result :: "TSPProblem \<Rightarrow> state \<Rightarrow> city \<Rightarrow> state" where
  "result p s a = s @ [a]"

text \<open>
  \<^verbatim>\<open>last_city = state[-1]; return self.distances[last_city][action]\<close>. The third
  parameter is not used.
\<close>

definition cost :: "TSPProblem \<Rightarrow> state \<Rightarrow> city \<Rightarrow> state \<Rightarrow> error + int" where
  "cost p s a s' =
     (case tuple_last s of
        Inl e \<Rightarrow> Inl e
      | Inr last_city \<Rightarrow> dist_lookup (distances p) last_city a)"

text \<open>
  \<^verbatim>\<open>min(self.distances[current_city][city] for city in unvisited)\<close>: the built-in takes
  the first item of the generator (ValueError when there is none) and then walks the
  rest, keeping the smaller value; each item is a matrix lookup, and the first lookup
  that fails ends the walk with its KeyError.
\<close>

fun min_walk :: "matrix \<Rightarrow> city \<Rightarrow> int \<Rightarrow> city list \<Rightarrow> error + int" where
  "min_walk d cur acc [] = Inr acc"
| "min_walk d cur acc (c # cs) =
     (case dist_lookup d cur c of
        Inl e \<Rightarrow> Inl e
      | Inr v \<Rightarrow> min_walk d cur (if v < acc then v else acc) cs)"

definition py_min :: "matrix \<Rightarrow> city \<Rightarrow> city list \<Rightarrow> error + int" where
  "py_min d cur cs =
     (case cs of
        [] \<Rightarrow> Inl ValueError
      | c # cs' \<Rightarrow>
          (case dist_lookup d cur c of
             Inl e \<Rightarrow> Inl e
           | Inr v \<Rightarrow> min_walk d cur v cs'))"

text \<open>
  \<^verbatim>\<open>heuristic\<close>: on a goal state the distance from the last city back to the first; on
  any other state the list of unvisited cities is computed, and when it is empty the
  distance back to the first city is returned again, otherwise the minimum distance
  from the last city to an unvisited one. In the goal branch \<^verbatim>\<open>state[-1]\<close> is evaluated
  before \<^verbatim>\<open>state[0]\<close>; both fail on the empty tuple only, with the same IndexError.
\<close>

definition heuristic :: "TSPProblem \<Rightarrow> state \<Rightarrow> error + int" where
  "heuristic p s =
     (if is_goal p s then
        (case tuple_last s of
           Inl e \<Rightarrow> Inl e
         | Inr l \<Rightarrow>
             (case tuple_first s of
                Inl e \<Rightarrow> Inl e
              | Inr f \<Rightarrow> dist_lookup (distances p) l f))
      else
        (case tuple_last s of
           Inl e \<Rightarrow> Inl e
         | Inr current_city \<Rightarrow>
             (let unvisited = [c \<leftarrow> cities p. c \<notin> set s] in
              if unvisited = [] then
                (case tuple_first s of
                   Inl e \<Rightarrow> Inl e
                 | Inr f \<Rightarrow> dist_lookup (distances p) current_city f)
              else py_min (distances p) current_city unvisited)))"

section \<open>Reachable states\<close>

text \<open>
  The states the search can build: the initial state, and every state obtained from a
  reachable one by \<^verbatim>\<open>result\<close> with an action that \<^verbatim>\<open>actions\<close> offers there.
\<close>

inductive reachable :: "TSPProblem \<Rightarrow> state \<Rightarrow> bool" for p :: TSPProblem where
  reachable_init: "reachable p (initial_state p)"
| reachable_step: "reachable p s \<Longrightarrow> a \<in> set (actions p s) \<Longrightarrow> reachable p (result p s a)"

section \<open>The search engine\<close>

text \<open>
  \<^verbatim>\<open>astar\<close> is imported from the \<^verbatim>\<open>simpleai\<close> package; the file holds no search code
  of its own. The engine below is the one the specification describes.
\<close>

text \<open>
  Modelled from the spec: the search node, which \<^verbatim>\<open>simpleai\<close> defines. It holds the
  state, the parent node (absent for the root), the action that produced it, the
  accumulated path cost g and the heuristic estimate h computed at creation.
\<close>

datatype node =
  Node (node_state: state) (node_parent: "node option") (node_action: "city option")
       (node_g: int) (node_h: int)

text \<open>Modelled from the spec: the priority of a node, f = g + h.\<close>

definition node_f :: "node \<Rightarrow> int" where
  "node_f n = node_g n + node_h n"

text \<open>
  Modelled from the spec: the frontier of the engine, which \<^verbatim>\<open>simpleai\<close> defines. It
  is kept as the list of its nodes in insertion order; the node removed is the one of
  least f, the earliest inserted among equals.
\<close>

fun least_f :: "node \<Rightarrow> node list \<Rightarrow> node" where
  "least_f best [] = best"
| "least_f best (n # ns) = least_f (if node_f n < node_f best then n else best) ns"

definition pop_frontier :: "node list \<Rightarrow> (node \<times> node list) option" where
  "pop_frontier fr =
     (case fr of
        [] \<Rightarrow> None
      | n # ns \<Rightarrow> (let best = least_f n ns in Some (best, remove1 best fr)))"

text \<open>
  Modelled from the spec: the ways a run of the engine ends, which \<^verbatim>\<open>simpleai\<close>
  defines. A precondition violation is an exception of the problem model or a negative
  step cost; exhaustion is a result of its own.
\<close>

datatype violation = Raised error | NegativeCost state city

datatype outcome = Found node | Exhausted | Violated violation

text \<open>
  Modelled from the spec: step 5 of the engine's algorithm, the expansion of a node
  over its actions in order, which \<^verbatim>\<open>simpleai\<close> defines. A child is created when its
  state is not in the explored map or is reached with a strictly smaller g.
\<close>

fun expand ::
  "TSPProblem \<Rightarrow> node \<Rightarrow> city list \<Rightarrow> node list \<times> (state \<rightharpoonup> int)
     \<Rightarrow> violation + (node list \<times> (state \<rightharpoonup> int))" where
  "expand p n [] fe = Inr fe"
| "expand p n (a # as) (fr, ex) =
     (let next_state = result p (node_state n) a in
      case cost p (node_state n) a next_state of
        Inl e \<Rightarrow> Inl (Raised e)
      | Inr step_cost \<Rightarrow>
          if step_cost < 0 then Inl (NegativeCost (node_state n) a)
          else
            (let tentative_g = node_g n + step_cost in
             if (case ex next_state of None \<Rightarrow> True | Some g' \<Rightarrow> tentative_g < g') then
               (case heuristic p next_state of
                  Inl e \<Rightarrow> Inl (Raised e)
                | Inr hv \<Rightarrow>
                    expand p n as
                      (fr @ [Node next_state (Some n) (Some a) tentative_g hv],
                       ex(next_state \<mapsto> tentative_g)))
             else expand p n as (fr, ex)))"

text \<open>
  Modelled from the spec: steps 2 to 6 of the engine's algorithm, the search loop,
  which \<^verbatim>\<open>simpleai\<close> defines. The loop has no bound of its own; the first argument
  counts the dequeues still allowed, and \<open>None\<close> is a run cut off by that count.
\<close>

fun astar_loop ::
  "nat \<Rightarrow> TSPProblem \<Rightarrow> node list \<Rightarrow> (state \<rightharpoonup> int) \<Rightarrow> outcome option" where
  "astar_loop 0 p fr ex = None"
| "astar_loop (Suc k) p fr ex =
     (case pop_frontier fr of
        None \<Rightarrow> Some Exhausted
      | Some (n, fr') \<Rightarrow>
          if is_goal p (node_state n) then Some (Found n)
          else
            (case expand p n (actions p (node_state n)) (fr', ex) of
               Inl v \<Rightarrow> Some (Violated v)
             | Inr (fr'', ex') \<Rightarrow> astar_loop k p fr'' ex'))"

text \<open>
  Modelled from the spec: step 1 of the engine's algorithm and its entry point
  \<^verbatim>\<open>astar\<close>, which \<^verbatim>\<open>simpleai\<close> defines: the root node of the initial state with
  g = 0, inserted into the frontier and recorded in the explored map.
\<close>

definition astar :: "nat \<Rightarrow> TSPProblem \<Rightarrow> outcome option" where
  "astar k p =
     (case heuristic p (initial_state p) of
        Inl e \<Rightarrow> Some (Violated (Raised e))
      | Inr h0 \<Rightarrow>
          astar_loop k p [Node (initial_state p) None None 0 h0]
            [initial_state p \<mapsto> 0])"

section \<open>Problem instances\<close>

text \<open>The two-city instance: cities A and B, 7 each way.\<close>

definition dist_AB :: matrix where
  "dist_AB = [''A'' \<mapsto> [''B'' \<mapsto> 7], ''B'' \<mapsto> [''A'' \<mapsto> 7]]"

definition tsp_AB :: TSPProblem where
  "tsp_AB = \<lparr>cities = [''A'', ''B''], distances = dist_AB, initial_state = [''A'']\<rparr>"


text \<open>The four-city instance of the script's \<^verbatim>\<open>main\<close>.\<close>

definition dist_ABCD :: matrix where
  "dist_ABCD =
     [''A'' \<mapsto> [''B'' \<mapsto> 10, ''C'' \<mapsto> 15, ''D'' \<mapsto> 20],
      ''B'' \<mapsto> [''A'' \<mapsto> 10, ''C'' \<mapsto> 5, ''D'' \<mapsto> 12],
      ''C'' \<mapsto> [''A'' \<mapsto> 15, ''B'' \<mapsto> 5, ''D'' \<mapsto> 8],
      ''D'' \<mapsto> [''A'' \<mapsto> 20, ''B'' \<mapsto> 12, ''C'' \<mapsto> 8]]"

definition tsp_ABCD :: TSPProblem where
  "tsp_ABCD =
     \<lparr>cities = [''A'', ''B'', ''C'', ''D''], distances = dist_ABCD,
      initial_state = [''A'']\<rparr>"



section \<open>Auxiliary facts\<close>

subsection \<open>What every reachable state satisfies\<close>

lemma reachable_invariants:
  assumes "TSPProblem_init cs d = Inr p" and "reachable p s"
  shows "s \<noteq> [] \<and> distinct s \<and> set s \<subseteq> set (cities p) \<and> hd s = hd (cities p)"
  using assms(2)
proof (induction rule: reachable.induct)
  case reachable_init
  from assms(1) obtain c cs' where "cs = c # cs'" "cities p = cs" "initial_state p = [c]"
    by (auto simp: TSPProblem_init_def split: list.splits)
  then show ?case by auto
next
  case (reachable_step s a)
  then show ?case
    by (auto simp: actions_def result_def)
qed


subsection \<open>Lengths and coverage\<close>

lemma same_length_covers:
  assumes "distinct s" and "set s \<subseteq> set cs" and "length s = length cs"
  shows "set cs \<subseteq> set s"
proof -
  have "card (set cs) \<le> length cs" by (rule card_length)
  also have "\<dots> = card (set s)" using assms(1,3) by (simp add: distinct_card)
  finally have "set s = set cs"
    using assms(2) by (intro card_seteq) auto
  then show ?thesis by simp
qed

lemma covers_same_length:
  assumes "distinct cs" and "distinct s" and "set s \<subseteq> set cs" and "set cs \<subseteq> set s"
  shows "length s = length cs"
proof -
  from assms(3,4) have "set s = set cs" by auto
  then have "card (set s) = card (set cs)" by simp
  with assms(1,2) show ?thesis by (simp add: distinct_card)
qed

lemma actions_empty_iff: "actions p s = [] \<longleftrightarrow> set (cities p) \<subseteq> set s"
  by (auto simp: actions_def filter_empty_conv)

lemma set_actions: "set (actions p s) = set (cities p) - set s"
  by (auto simp: actions_def)

subsection \<open>Matrix lookups and the walk of min\<close>


lemma dist_lookup_isl: "isl (dist_lookup d a b) \<longleftrightarrow> matrix_entry d a b = None"
  by (auto simp: dist_lookup_def matrix_entry_def split: option.splits)






subsection \<open>The heuristic, branch by branch\<close>

lemma heuristic_empty: "heuristic p [] = Inl IndexError"
  by (simp add: heuristic_def tuple_last_def)



section \<open>Problem construction\<close>

text \<open>
  C8. Constructing the problem with an empty city list fails at once, inside the
  constructor, with the IndexError of \<^verbatim>\<open>cities[0]\<close>; the empty list is the only list
  on which construction fails.
\<close>

theorem init_empty_city_list_fails:
  "TSPProblem_init [] d = Inl IndexError \<and> (isl (TSPProblem_init cs d) \<longleftrightarrow> cs = [])"
  by (simp add: TSPProblem_init_def split: list.split)

section \<open>Goal test\<close>

text \<open>
  C3. For every state \<open>S\<close>, \<^verbatim>\<open>is_goal(S)\<close> is true if and only if every city of the
  problem's city list appears in \<open>S\<close>. A state is a duplicate-free sequence of cities
  of the list, and the city list names no city twice; every state reachable from the
  initial state of a constructed problem is one (\<open>reachable_invariants\<close>). The code
  compares the two lengths, which on these states is the same test.
\<close>

theorem is_goal_iff_all_visited:
  assumes "distinct (cities p)" and "distinct s" and "set s \<subseteq> set (cities p)"
  shows "is_goal p s \<longleftrightarrow> set (cities p) \<subseteq> set s"
proof
  assume "is_goal p s"
  then have "length s = length (cities p)" by (simp add: is_goal_def)
  with assms(2,3) show "set (cities p) \<subseteq> set s" by (rule same_length_covers)
next
  assume "set (cities p) \<subseteq> set s"
  with assms have "length s = length (cities p)" by (rule covers_same_length)
  then show "is_goal p s" by (simp add: is_goal_def)
qed

theorem is_goal_iff_all_visited_witness:
  "(is_goal tsp_ABCD [''A'', ''C'', ''B'', ''D''] \<longleftrightarrow>
      set (cities tsp_ABCD) \<subseteq> set [''A'', ''C'', ''B'', ''D'']) \<and>
   is_goal tsp_ABCD [''A'', ''C'', ''B'', ''D''] \<and>
   (is_goal tsp_ABCD [''A'', ''C''] \<longleftrightarrow> set (cities tsp_ABCD) \<subseteq> set [''A'', ''C'']) \<and>
   \<not> is_goal tsp_ABCD [''A'', ''C'']"
proof -
  have d: "distinct (cities tsp_ABCD)" by (simp add: tsp_ABCD_def)
  have 1: "distinct [''A'', ''C'', ''B'', ''D'']" by simp
  have 2: "set [''A'', ''C'', ''B'', ''D''] \<subseteq> set (cities tsp_ABCD)"
    by (simp add: tsp_ABCD_def)
  have 3: "distinct [''A'', ''C'']" by simp
  have 4: "set [''A'', ''C''] \<subseteq> set (cities tsp_ABCD)" by (simp add: tsp_ABCD_def)
  have 5: "is_goal tsp_ABCD [''A'', ''C'', ''B'', ''D'']" by (simp add: is_goal_def tsp_ABCD_def)
  have 6: "\<not> is_goal tsp_ABCD [''A'', ''C'']" by (simp add: is_goal_def tsp_ABCD_def)
  from is_goal_iff_all_visited [OF d 1 2] is_goal_iff_all_visited [OF d 3 4] 5 6
  show ?thesis by blast
qed

section \<open>Successor generation\<close>

text \<open>
  C4. For every state \<open>S\<close>, \<^verbatim>\<open>actions(S)\<close> holds exactly the cities of the city list
  that are not in \<open>S\<close>; this half needs nothing of \<open>S\<close>. And \<^verbatim>\<open>actions(S)\<close> is empty
  exactly when \<^verbatim>\<open>is_goal(S)\<close> is true, for every state in the sense of the data model:
  a duplicate-free sequence of cities of a city list that names no city twice, as every
  reachable state of a constructed problem is (\<open>reachable_invariants\<close>).
\<close>

theorem actions_unvisited_empty_at_goal:
  "set (actions p s) = set (cities p) - set s \<and>
   (distinct (cities p) \<and> distinct s \<and> set s \<subseteq> set (cities p) \<longrightarrow>
      (actions p s = [] \<longleftrightarrow> is_goal p s))"
proof -
  have "actions p s = [] \<longleftrightarrow> is_goal p s"
    if "distinct (cities p)" and "distinct s" and "set s \<subseteq> set (cities p)"
  proof
    assume "actions p s = []"
    then have "set (cities p) \<subseteq> set s" by (simp add: actions_empty_iff)
    with that have "length s = length (cities p)" by (rule covers_same_length)
    then show "is_goal p s" by (simp add: is_goal_def)
  next
    assume "is_goal p s"
    then have "length s = length (cities p)" by (simp add: is_goal_def)
    with that(2,3) have "set (cities p) \<subseteq> set s" by (rule same_length_covers)
    then show "actions p s = []" by (simp add: actions_empty_iff)
  qed
  then show ?thesis by (simp add: set_actions)
qed

theorem actions_unvisited_empty_at_goal_witness:
  "set (actions tsp_ABCD [''A'', ''C'']) = {''B'', ''D''} \<and>
   actions tsp_ABCD [''A'', ''C''] \<noteq> [] \<and> \<not> is_goal tsp_ABCD [''A'', ''C''] \<and>
   actions tsp_ABCD [''A'', ''C'', ''B'', ''D''] = [] \<and>
   is_goal tsp_ABCD [''A'', ''C'', ''B'', ''D'']"
proof -
  have h1: "distinct (cities tsp_ABCD) \<and> distinct [''A'', ''C''] \<and>
            set [''A'', ''C''] \<subseteq> set (cities tsp_ABCD)"
    by (simp add: tsp_ABCD_def)
  have h2: "distinct (cities tsp_ABCD) \<and> distinct [''A'', ''C'', ''B'', ''D''] \<and>
            set [''A'', ''C'', ''B'', ''D''] \<subseteq> set (cities tsp_ABCD)"
    by (simp add: tsp_ABCD_def)
  have g1: "\<not> is_goal tsp_ABCD [''A'', ''C'']" by (simp add: is_goal_def tsp_ABCD_def)
  have g2: "is_goal tsp_ABCD [''A'', ''C'', ''B'', ''D'']" by (simp add: is_goal_def tsp_ABCD_def)
  have c: "set (cities tsp_ABCD) - set [''A'', ''C''] = {''B'', ''D''}"
    by (auto simp: tsp_ABCD_def)
  from actions_unvisited_empty_at_goal [of tsp_ABCD "[''A'', ''C'']"]
       actions_unvisited_empty_at_goal [of tsp_ABCD "[''A'', ''C'', ''B'', ''D'']"]
       h1 h2 g1 g2 c
  show ?thesis by simp
qed

text \<open>
  C9. \<^verbatim>\<open>actions(S)\<close> is a subsequence of the city list, so its entries stand in the
  relative order of the city list, and it keeps every occurrence of a city that is not
  in \<open>S\<close> and none of a city that is; distance matrix and initial state play no part.
\<close>

theorem actions_in_city_list_order:
  "subseq (actions p s) (cities p) \<and>
   count_list (actions p s) c = (if c \<in> set s then 0 else count_list (cities p) c) \<and>
   actions \<lparr>cities = cities p, distances = d, initial_state = i\<rparr> s = actions p s"
proof -
  have "count_list (filter P xs) c = (if P c then count_list xs c else 0)"
    for P :: "city \<Rightarrow> bool" and xs
    by (induction xs) auto
  then show ?thesis
    by (simp add: actions_def)
qed

text \<open>
  C5 (as the code has it). \<^verbatim>\<open>result(S, A)\<close> is \<open>S\<close> with \<open>A\<close> appended, for every
  \<open>S\<close> and \<open>A\<close>: the method never fails, and when \<open>A\<close> is already in \<open>S\<close> the state it
  returns holds \<open>A\<close> twice.
\<close>

theorem result_appends:
  "result p s a = s @ [a] \<and>
   length (result p s a) = Suc (length s) \<and>
   last (result p s a) = a \<and>
   (distinct (result p s a) \<longleftrightarrow> distinct s \<and> a \<notin> set s)"
  by (auto simp: result_def)

text \<open>
  C5 as stated fails: applied to the state (A) and the action A, which is present in
  the state, \<^verbatim>\<open>result\<close> returns the state (A, A).
\<close>

theorem result_revisit_counterexample:
  "''A'' \<in> set [''A''] \<and> result tsp_AB [''A''] ''A'' = [''A'', ''A'']"
  by (simp add: result_def)

section \<open>The no-revisit invariant\<close>

text \<open>
  C2. For a problem built by the constructor, every state reachable from the initial
  state through \<^verbatim>\<open>result\<close> with actions drawn from \<^verbatim>\<open>actions\<close> holds no city twice.
\<close>

theorem reachable_distinct:
  assumes "TSPProblem_init cs d = Inr p" and "reachable p s"
  shows "distinct s"
  using assms(2)
proof (induction rule: reachable.induct)
  case reachable_init
  from assms(1) obtain c where "initial_state p = [c]"
    by (auto simp: TSPProblem_init_def split: list.splits)
  then show ?case by simp
next
  case (reachable_step s a)
  then show ?case
    by (simp add: actions_def result_def)
qed

theorem reachable_distinct_witness:
  "TSPProblem_init [''A'', ''B''] dist_AB = Inr tsp_AB \<and>
   reachable tsp_AB [''A'', ''B''] \<and> distinct [''A'', ''B'']"
proof -
  have i: "TSPProblem_init [''A'', ''B''] dist_AB = Inr tsp_AB"
    by (simp add: TSPProblem_init_def tsp_AB_def)
  have "reachable tsp_AB (initial_state tsp_AB)"
    by (rule reachable_init)
  then have "reachable tsp_AB (result tsp_AB (initial_state tsp_AB) ''B'')"
    by (rule reachable_step) (simp add: actions_def tsp_AB_def)
  then have r: "reachable tsp_AB [''A'', ''B'']"
    by (simp add: result_def tsp_AB_def)
  from i r reachable_distinct [OF i r] show ?thesis by simp
qed

section \<open>Transition cost\<close>

text \<open>
  C6. \<^verbatim>\<open>cost(S, A, S')\<close> returns the value \<open>v\<close> exactly when \<open>S\<close> is non-empty and the
  matrix maps the pair (last city of \<open>S\<close>, \<open>A\<close>) to \<open>v\<close>; it raises exactly when \<open>S\<close> is
  empty or that pair is absent from the matrix.
\<close>

theorem cost_is_lookup_or_fails:
  "(cost p s a s' = Inr v \<longleftrightarrow> s \<noteq> [] \<and> matrix_entry (distances p) (last s) a = Some v) \<and>
   (isl (cost p s a s') \<longleftrightarrow> s = [] \<or> matrix_entry (distances p) (last s) a = None)"
  by (auto simp: cost_def tuple_last_def dist_lookup_def matrix_entry_def
           split: option.splits)

section \<open>Heuristic\<close>






section \<open>The two-city scenario\<close>

text \<open>
  C7. On the instance with cities A and B and 7 each way, the search, given at least
  two dequeues, returns the node of the state (A, B) with accumulated path cost 7, the
  child of the root by the action B.
\<close>

theorem astar_two_cities:
  "TSPProblem_init [''A'', ''B''] dist_AB = Inr tsp_AB \<and>
   astar (Suc (Suc k)) tsp_AB =
     Some (Found (Node [''A'', ''B''] (Some (Node [''A''] None None 0 7)) (Some ''B'') 7 7))"
  by (simp add: TSPProblem_init_def tsp_AB_def dist_AB_def astar_def heuristic_def
        is_goal_def tuple_last_def tuple_first_def dist_lookup_def py_min_def
        pop_frontier_def node_f_def actions_def result_def cost_def Let_def)

end
